theory Spec2Isabelle
  imports Main "HOL-Library.Word" "HOL-Library.AList"
begin

section \<open>Values shared by the instrumentation modules\<close>

text \<open>
  A Python exception raised by a wrapped operation or by a library call: its class name
  and its message. Values of this type stand for instances of Python's \<open>Exception\<close>,
  the class the \<open>except Exception\<close> clauses of the wrappers name.
\<close>

datatype exn = Exn (exn_type: string) (exn_value: string)

type_synonym bytes = "8 word list"

text \<open>A carrier is a Python \<open>Dict[str, str]\<close>: HTTP headers or message headers.\<close>

type_synonym carrier = "string \<rightharpoonup> string"

subsection \<open>Python's \<open>format(n, "016x")\<close> and \<open>format(n, "032x")\<close>\<close>

definition hex_digit :: "nat \<Rightarrow> char" where
  "hex_digit d = ''0123456789abcdef'' ! (d mod 16)"

fun to_hex :: "nat \<Rightarrow> string" where
  "to_hex n = (if n < 16 then [hex_digit n] else to_hex (n div 16) @ [hex_digit n])"

declare to_hex.simps [simp del]

text \<open>
  \<open>format_0x width n\<close> is \<open>format(n, "0<width>x")\<close>: lowercase hexadecimal, padded
  with zeros on the left to at least \<open>width\<close> characters, never truncated.
\<close>

definition format_0x :: "nat \<Rightarrow> nat \<Rightarrow> string" where
  "format_0x width n = replicate (width - length (to_hex n)) (CHR ''0'') @ to_hex n"

definition hex_value :: "char \<Rightarrow> nat option" where
  "hex_value c =
     (if c \<in> set ''0123456789'' then Some (of_char c - 48)
      else if c \<in> set ''abcdef'' then Some (of_char c - 87)
      else None)"

fun parse_hex_from :: "nat \<Rightarrow> string \<Rightarrow> nat option" where
  "parse_hex_from acc [] = Some acc"
| "parse_hex_from acc (c # cs) =
     (case hex_value c of None \<Rightarrow> None | Some d \<Rightarrow> parse_hex_from (16 * acc + d) cs)"

definition parse_hex :: "string \<Rightarrow> nat option" where
  "parse_hex s = (if s = [] then None else parse_hex_from 0 s)"

subsection \<open>Trace context, baggage and the context a propagator reads and writes\<close>

text \<open>
  The TraceContext of the data model: a 128-bit trace id, a 64-bit span id and the
  sampling flag.
\<close>

record span_context =
  trace_id :: "128 word"
  span_id :: "64 word"
  sampled :: bool

text \<open>
  An OpenTelemetry \<open>Context\<close>: the span context of the span it carries (absent when it
  carries none) and the baggage entries, in insertion order as a Python dict keeps them.
\<close>

record otel_context =
  ctx_span :: "span_context option"
  ctx_baggage :: "(string \<times> string) list"

definition empty_context :: otel_context where
  "empty_context = \<lparr>ctx_span = None, ctx_baggage = []\<rparr>"

text \<open>The sampling flag a context reports: false when it carries no span.\<close>

definition ctx_sampled :: "otel_context \<Rightarrow> bool" where
  "ctx_sampled c = (case ctx_span c of None \<Rightarrow> False | Some sc \<Rightarrow> sampled sc)"

section \<open>The context codec\<close>

text \<open>
  Modelled from the spec: the propagators (\<open>opentelemetry.propagate.inject\<close> and
  \<open>extract\<close>, \<open>TraceContextTextMapPropagator\<close>, \<open>W3CBaggagePropagator\<close>) belong to the
  OpenTelemetry library, which is not in the repository. Sections 4.1 and 6 of the spec
  give their contract: the carrier key \<open>traceparent\<close> holds
  \<open>version-trace_id-span_id-flags\<close>, the key \<open>baggage\<close> holds comma-separated
  \<open>key=value\<close> pairs, injecting writes these keys and leaves every other key alone,
  and extracting an absent or malformed value degrades to no parent and empty baggage.
\<close>

definition encode_traceparent :: "span_context \<Rightarrow> string" where
  "encode_traceparent sc =
     ''00-'' @ format_0x 32 (unat (trace_id sc)) @ ''-'' @ format_0x 16 (unat (span_id sc))
       @ ''-'' @ (if sampled sc then ''01'' else ''00'')"

definition parse_traceparent :: "string \<Rightarrow> span_context option" where
  "parse_traceparent s =
     (if length s = 55 \<and> s ! 2 = CHR ''-'' \<and> s ! 35 = CHR ''-'' \<and> s ! 52 = CHR ''-'' then
        (case (parse_hex (take 2 s), parse_hex (take 32 (drop 3 s)),
               parse_hex (take 16 (drop 36 s)), parse_hex (drop 53 s)) of
           (Some v, Some t, Some sp, Some f) \<Rightarrow>
             if v = 255 \<or> t = 0 \<or> sp = 0 then None
             else Some \<lparr>trace_id = of_nat t, span_id = of_nat sp, sampled = odd f\<rparr>
         | _ \<Rightarrow> None)
      else None)"

fun join_with :: "char \<Rightarrow> string list \<Rightarrow> string" where
  "join_with sep [] = []"
| "join_with sep [x] = x"
| "join_with sep (x # y # ys) = x @ sep # join_with sep (y # ys)"

fun split_on :: "char \<Rightarrow> string \<Rightarrow> string list" where
  "split_on sep [] = [[]]"
| "split_on sep (c # cs) =
     (if c = sep then [] # split_on sep cs
      else (case split_on sep cs of [] \<Rightarrow> [[c]] | p # ps \<Rightarrow> (c # p) # ps))"

definition encode_baggage :: "(string \<times> string) list \<Rightarrow> string" where
  "encode_baggage b = join_with (CHR '','') (map (\<lambda>(k, v). k @ CHR ''='' # v) b)"

definition parse_baggage_entry :: "string \<Rightarrow> (string \<times> string) option" where
  "parse_baggage_entry e =
     (if CHR ''='' \<in> set e \<and> takeWhile (\<lambda>c. c \<noteq> CHR ''='') e \<noteq> []
      then Some (takeWhile (\<lambda>c. c \<noteq> CHR ''='') e, tl (dropWhile (\<lambda>c. c \<noteq> CHR ''='') e))
      else None)"

definition parse_baggage :: "string \<Rightarrow> (string \<times> string) list" where
  "parse_baggage s =
     (let es = map parse_baggage_entry (split_on (CHR '','') s)
      in if None \<in> set es then [] else map the es)"

text \<open>
  The two propagators, each reading or writing its own key. \<open>inject\<close> writes the span
  context and the baggage of the given (current) context into the carrier.
\<close>

definition tracecontext_inject :: "otel_context \<Rightarrow> carrier \<Rightarrow> carrier" where
  "tracecontext_inject cur c =
     (case ctx_span cur of None \<Rightarrow> c | Some sc \<Rightarrow> c(''traceparent'' \<mapsto> encode_traceparent sc))"

definition baggage_inject :: "otel_context \<Rightarrow> carrier \<Rightarrow> carrier" where
  "baggage_inject cur c =
     (if ctx_baggage cur = [] then c else c(''baggage'' \<mapsto> encode_baggage (ctx_baggage cur)))"

definition tracecontext_extract :: "carrier \<Rightarrow> otel_context" where
  "tracecontext_extract c =
     \<lparr>ctx_span = (case c ''traceparent'' of None \<Rightarrow> None | Some s \<Rightarrow> parse_traceparent s),
      ctx_baggage = []\<rparr>"

definition baggage_extract :: "carrier \<Rightarrow> otel_context" where
  "baggage_extract c =
     \<lparr>ctx_span = None,
      ctx_baggage = (case c ''baggage'' of None \<Rightarrow> [] | Some s \<Rightarrow> parse_baggage s)\<rparr>"

text \<open>
  The global \<open>inject\<close> and \<open>extract\<close> of \<open>opentelemetry.propagate\<close>: the composite of
  the two propagators (named \<open>propagate_inject\<close> and \<open>propagate_extract\<close> here).
\<close>

definition propagate_inject :: "otel_context \<Rightarrow> carrier \<Rightarrow> carrier" where
  "propagate_inject cur c = baggage_inject cur (tracecontext_inject cur c)"

definition propagate_extract :: "carrier \<Rightarrow> otel_context" where
  "propagate_extract c =
     \<lparr>ctx_span = ctx_span (tracecontext_extract c),
      ctx_baggage = ctx_baggage (baggage_extract c)\<rparr>"

section \<open>Spans and the tracer\<close>

datatype span_kind = INTERNAL | CLIENT | SERVER | PRODUCER | CONSUMER

datatype status_code = UNSET | OK | ERROR

text \<open>
  Modelled from the spec: the Span Recorder (the OpenTelemetry tracer and its spans, a
  library that is not in the repository). Section 3 gives a span its name, kind, context,
  optional parent context, attributes, a status among UNSET, OK and ERROR, and an optional
  exception; section 4.2 gives \<open>start_span\<close> (trace id inherited from a sampled parent,
  fresh otherwise; span id fresh) and says that closing is terminal. Timestamps are left
  out. A span is an object of the tracer's store \<open>spans\<close>, addressed by its index.
\<close>

record span =
  span_name :: string
  kind :: span_kind
  span_ctx :: span_context
  parent_ctx :: "span_context option"
  attributes :: "(string \<times> string option) list"
  status :: status_code
  exceptions :: "exn list"
  ended :: bool

section \<open>Instruments and the per-queue holder\<close>

text \<open>
  Modelled from the spec: the instruments of the OpenTelemetry meter (section 3: a
  counter is a monotonic non-negative integer, a histogram records a stream of numeric
  observations). Each keeps the name, description and unit it was created with.
\<close>

record counter =
  c_name :: string
  c_description :: string
  c_total :: nat

record histogram =
  h_name :: string
  h_description :: string
  h_unit :: string
  h_observations :: "nat list"

text \<open>The dataclass \<open>QueueMetrics\<close> of \<open>rabbitmq_instrumentation.py\<close>.\<close>

record QueueMetrics =
  published_counter :: counter
  consumed_counter :: counter
  processing_time :: histogram
  queue_time :: histogram
  message_size :: histogram
  retry_counter :: counter

text \<open>
  The calls into the metric library that the instrumentation makes, by instrument name.
  Whether such a call raises is for the library to decide: the field \<open>raises\<close> below
  says, for each call, the exception it raises, or \<open>None\<close> when it returns.
\<close>

datatype lib_call =
  Create_counter string | Create_histogram string | Counter_add string | Histogram_record string

section \<open>The state of \<open>RabbitMQInstrumentation\<close>\<close>

text \<open>
  The object \<open>self\<close> together with the process-wide tracer and meter it holds:
  \<^item> \<open>metrics_by_queue\<close> is the dict of the source; it maps a queue name to the address
    of a \<open>QueueMetrics\<close> instance in the store \<open>objects\<close>, so that the identity of an
    instance is its address;
  \<^item> \<open>spans\<close> is the tracer's store of spans and \<open>current\<close> the current context;
  \<^item> \<open>gen_trace_id\<close> and \<open>gen_span_id\<close> are the tracer's id generator, asked for
    the ids of the n-th span.
\<close>

record RabbitMQInstrumentation =
  service_name :: string
  metrics_by_queue :: "string \<rightharpoonup> nat"
  objects :: "QueueMetrics list"
  raises :: "lib_call \<Rightarrow> exn option"
  spans :: "span list"
  current :: otel_context
  gen_trace_id :: "nat \<Rightarrow> 128 word"
  gen_span_id :: "nat \<Rightarrow> 64 word"

text \<open>\<open>__init__\<close> and \<open>_setup_metrics\<close>: an empty registry, no span yet.\<close>

definition new_instrumentation ::
  "string \<Rightarrow> (lib_call \<Rightarrow> exn option) \<Rightarrow> (nat \<Rightarrow> 128 word) \<Rightarrow> (nat \<Rightarrow> 64 word)
     \<Rightarrow> RabbitMQInstrumentation" where
  "new_instrumentation name lib gt gs =
     \<lparr>service_name = name, metrics_by_queue = Map.empty, objects = [], raises = lib,
      spans = [], current = empty_context, gen_trace_id = gt, gen_span_id = gs\<rparr>"

subsection \<open>Tracer operations\<close>

definition start_span ::
  "string \<Rightarrow> otel_context \<Rightarrow> span_kind \<Rightarrow> (string \<times> string option) list
     \<Rightarrow> RabbitMQInstrumentation \<Rightarrow> nat \<times> RabbitMQInstrumentation" where
  "start_span name ctx k attrs w =
     (let i = length (spans w);
          tid = (case ctx_span ctx of
                   None \<Rightarrow> gen_trace_id w i
                 | Some p \<Rightarrow> if sampled p then trace_id p else gen_trace_id w i);
          s = \<lparr>span_name = name, kind = k,
               span_ctx = \<lparr>trace_id = tid, span_id = gen_span_id w i, sampled = True\<rparr>,
               parent_ctx = ctx_span ctx, attributes = attrs, status = UNSET,
               exceptions = [], ended = False\<rparr>
      in (i, w\<lparr>spans := spans w @ [s]\<rparr>))"

definition update_span ::
  "nat \<Rightarrow> (span \<Rightarrow> span) \<Rightarrow> RabbitMQInstrumentation \<Rightarrow> RabbitMQInstrumentation" where
  "update_span i f w = w\<lparr>spans := (spans w)[i := f (spans w ! i)]\<rparr>"

definition set_status :: "nat \<Rightarrow> status_code \<Rightarrow> RabbitMQInstrumentation \<Rightarrow> RabbitMQInstrumentation" where
  "set_status i st w = update_span i (\<lambda>s. if ended s then s else s\<lparr>status := st\<rparr>) w"

definition record_exception :: "nat \<Rightarrow> exn \<Rightarrow> RabbitMQInstrumentation \<Rightarrow> RabbitMQInstrumentation" where
  "record_exception i e w =
     update_span i (\<lambda>s. if ended s then s else s\<lparr>exceptions := exceptions s @ [e]\<rparr>) w"

definition end_span :: "nat \<Rightarrow> RabbitMQInstrumentation \<Rightarrow> RabbitMQInstrumentation" where
  "end_span i w = update_span i (\<lambda>s. s\<lparr>ended := True\<rparr>) w"

text \<open>
  \<open>with tracer.start_as_current_span(...) as span\<close>: the new span is a child of the
  current context and becomes the current span inside the block; leaving the block ends
  the span and restores the context that was current before.
\<close>

definition start_as_current_span ::
  "string \<Rightarrow> span_kind \<Rightarrow> (string \<times> string option) list
     \<Rightarrow> RabbitMQInstrumentation \<Rightarrow> nat \<times> RabbitMQInstrumentation" where
  "start_as_current_span name k attrs w =
     (case start_span name (current w) k attrs w of
        (i, w1) \<Rightarrow> (i, w1\<lparr>current := (current w1)\<lparr>ctx_span := Some (span_ctx (spans w1 ! i))\<rparr>\<rparr>))"

definition exit_current_span ::
  "nat \<Rightarrow> otel_context \<Rightarrow> RabbitMQInstrumentation \<Rightarrow> RabbitMQInstrumentation" where
  "exit_current_span i previous w = (end_span i w)\<lparr>current := previous\<rparr>"

subsection \<open>Meter operations\<close>

definition create_counter ::
  "string \<Rightarrow> string \<Rightarrow> RabbitMQInstrumentation \<Rightarrow> exn + counter" where
  "create_counter name description w =
     (case raises w (Create_counter name) of
        Some e \<Rightarrow> Inl e
      | None \<Rightarrow> Inr \<lparr>c_name = name, c_description = description, c_total = 0\<rparr>)"

definition create_histogram ::
  "string \<Rightarrow> string \<Rightarrow> string \<Rightarrow> RabbitMQInstrumentation \<Rightarrow> exn + histogram" where
  "create_histogram name description unit w =
     (case raises w (Create_histogram name) of
        Some e \<Rightarrow> Inl e
      | None \<Rightarrow> Inr \<lparr>h_name = name, h_description = description, h_unit = unit,
                    h_observations = []\<rparr>)"

definition update_object ::
  "nat \<Rightarrow> (QueueMetrics \<Rightarrow> QueueMetrics) \<Rightarrow> RabbitMQInstrumentation \<Rightarrow> RabbitMQInstrumentation" where
  "update_object a f w = w\<lparr>objects := (objects w)[a := f (objects w ! a)]\<rparr>"

text \<open>
  \<open>metrics.<field>.add(n)\<close> and \<open>metrics.<field>.record(v)\<close> on the instance at address
  \<open>a\<close>; the field is given by its selector and its update function.
\<close>

definition counter_add ::
  "(QueueMetrics \<Rightarrow> counter) \<Rightarrow> ((counter \<Rightarrow> counter) \<Rightarrow> QueueMetrics \<Rightarrow> QueueMetrics)
     \<Rightarrow> nat \<Rightarrow> nat \<Rightarrow> RabbitMQInstrumentation \<Rightarrow> exn option \<times> RabbitMQInstrumentation" where
  "counter_add field field_update a n w =
     (case raises w (Counter_add (c_name (field (objects w ! a)))) of
        Some e \<Rightarrow> (Some e, w)
      | None \<Rightarrow> (None, update_object a (field_update (\<lambda>c. c\<lparr>c_total := c_total c + n\<rparr>)) w))"

definition histogram_record ::
  "(QueueMetrics \<Rightarrow> histogram) \<Rightarrow> ((histogram \<Rightarrow> histogram) \<Rightarrow> QueueMetrics \<Rightarrow> QueueMetrics)
     \<Rightarrow> nat \<Rightarrow> nat \<Rightarrow> RabbitMQInstrumentation \<Rightarrow> exn option \<times> RabbitMQInstrumentation" where
  "histogram_record field field_update a v w =
     (case raises w (Histogram_record (h_name (field (objects w ! a)))) of
        Some e \<Rightarrow> (Some e, w)
      | None \<Rightarrow>
          (None, update_object a
                   (field_update (\<lambda>h. h\<lparr>h_observations := h_observations h @ [v]\<rparr>)) w))"

text \<open>Statements in sequence: the second runs only when the first did not raise.\<close>

definition then_do ::
  "exn option \<times> 'w \<Rightarrow> ('w \<Rightarrow> exn option \<times> 'w) \<Rightarrow> exn option \<times> 'w" where
  "then_do r f = (case r of (Some e, w) \<Rightarrow> (Some e, w) | (None, w) \<Rightarrow> f w)"

section \<open>The metric registry: \<open>_get_queue_metrics\<close>\<close>

text \<open>
  The constructor call \<open>QueueMetrics(...)\<close> with its six instrument creations, in the
  order of the source; the first creation that raises ends it.
\<close>

definition new_queue_metrics :: "string \<Rightarrow> RabbitMQInstrumentation \<Rightarrow> exn + QueueMetrics" where
  "new_queue_metrics queue_name w =
     (case create_counter (''rabbitmq.'' @ queue_name @ ''.published'')
             (''Number of messages published to '' @ queue_name) w of
        Inl e \<Rightarrow> Inl e
      | Inr pc \<Rightarrow>
     (case create_counter (''rabbitmq.'' @ queue_name @ ''.consumed'')
             (''Number of messages consumed from '' @ queue_name) w of
        Inl e \<Rightarrow> Inl e
      | Inr cc \<Rightarrow>
     (case create_histogram (''rabbitmq.'' @ queue_name @ ''.processing_time'')
             (''Time taken to process messages from '' @ queue_name) ''ms'' w of
        Inl e \<Rightarrow> Inl e
      | Inr pt \<Rightarrow>
     (case create_histogram (''rabbitmq.'' @ queue_name @ ''.queue_time'')
             (''Time messages spend in '' @ queue_name) ''ms'' w of
        Inl e \<Rightarrow> Inl e
      | Inr qt \<Rightarrow>
     (case create_histogram (''rabbitmq.'' @ queue_name @ ''.message_size'')
             (''Size of messages in '' @ queue_name) ''bytes'' w of
        Inl e \<Rightarrow> Inl e
      | Inr ms \<Rightarrow>
     (case create_counter (''rabbitmq.'' @ queue_name @ ''.retries'')
             (''Number of message retries in '' @ queue_name) w of
        Inl e \<Rightarrow> Inl e
      | Inr rc \<Rightarrow>
          Inr \<lparr>published_counter = pc, consumed_counter = cc, processing_time = pt,
               queue_time = qt, message_size = ms, retry_counter = rc\<rparr>))))))"

text \<open>\<open>self.metrics_by_queue[queue_name] = ...\<close> with a freshly allocated instance.\<close>

definition store_queue_metrics ::
  "string \<Rightarrow> QueueMetrics \<Rightarrow> RabbitMQInstrumentation \<Rightarrow> RabbitMQInstrumentation" where
  "store_queue_metrics queue_name qm w =
     w\<lparr>objects := objects w @ [qm],
       metrics_by_queue := (metrics_by_queue w)(queue_name \<mapsto> length (objects w))\<rparr>"

text \<open>\<open>return self.metrics_by_queue[queue_name]\<close>: a missing key raises \<open>KeyError\<close>.\<close>

definition lookup_queue_metrics :: "string \<Rightarrow> RabbitMQInstrumentation \<Rightarrow> exn + nat" where
  "lookup_queue_metrics queue_name w =
     (case metrics_by_queue w queue_name of
        None \<Rightarrow> Inl (Exn ''KeyError'' queue_name)
      | Some a \<Rightarrow> Inr a)"

definition get_queue_metrics ::
  "string \<Rightarrow> RabbitMQInstrumentation \<Rightarrow> (exn + nat) \<times> RabbitMQInstrumentation" where
  "get_queue_metrics queue_name w =
     (if queue_name \<notin> dom (metrics_by_queue w) then
        (case new_queue_metrics queue_name w of
           Inl e \<Rightarrow> (Inl e, w)
         | Inr qm \<Rightarrow>
             (lookup_queue_metrics queue_name (store_queue_metrics queue_name qm w),
              store_queue_metrics queue_name qm w))
      else (lookup_queue_metrics queue_name w, w))"

text \<open>Calls made one after the other, each running to completion before the next.\<close>

fun get_queue_metrics_all ::
  "string list \<Rightarrow> RabbitMQInstrumentation \<Rightarrow> RabbitMQInstrumentation" where
  "get_queue_metrics_all [] w = w"
| "get_queue_metrics_all (q # qs) w = get_queue_metrics_all qs (snd (get_queue_metrics q w))"

text \<open>
  The \<open>QueueMetrics\<close> instances ever constructed for a queue name: the objects of the
  store whose published counter carries that queue's instrument name.
\<close>

definition instances_of :: "string \<Rightarrow> RabbitMQInstrumentation \<Rightarrow> QueueMetrics list" where
  "instances_of queue_name w =
     filter (\<lambda>qm. c_name (published_counter qm) = ''rabbitmq.'' @ queue_name @ ''.published'')
       (objects w)"

subsection \<open>Callers whose executions of \<open>_get_queue_metrics\<close> interleave\<close>

text \<open>
  The source takes no lock, so the three steps of \<open>_get_queue_metrics\<close> (the membership
  test, the construction with the store into the dict, the final lookup) of two callers
  can interleave. A caller is at one of these steps or has finished with a result; a
  schedule names, step by step, the caller that runs next.
\<close>

datatype caller = At_check | At_create | At_return | Finished "exn + nat"

definition caller_step ::
  "string \<Rightarrow> caller \<Rightarrow> RabbitMQInstrumentation \<Rightarrow> caller \<times> RabbitMQInstrumentation" where
  "caller_step queue_name c w =
     (case c of
        At_check \<Rightarrow>
          (if queue_name \<notin> dom (metrics_by_queue w) then (At_create, w) else (At_return, w))
      | At_create \<Rightarrow>
          (case new_queue_metrics queue_name w of
             Inl e \<Rightarrow> (Finished (Inl e), w)
           | Inr qm \<Rightarrow> (At_return, store_queue_metrics queue_name qm w))
      | At_return \<Rightarrow> (Finished (lookup_queue_metrics queue_name w), w)
      | Finished r \<Rightarrow> (Finished r, w))"

fun run_schedule ::
  "string \<Rightarrow> nat list \<Rightarrow> caller list \<times> RabbitMQInstrumentation
     \<Rightarrow> caller list \<times> RabbitMQInstrumentation" where
  "run_schedule queue_name [] cw = cw"
| "run_schedule queue_name (i # sched) (cs, w) =
     (if i < length cs then
        (case caller_step queue_name (cs ! i) w of
           (c', w') \<Rightarrow> run_schedule queue_name sched (cs[i := c'], w'))
      else run_schedule queue_name sched (cs, w))"

section \<open>The messaging interceptor\<close>

text \<open>
  \<open>pika.BasicProperties\<close> with its fourteen fields; a field that is not set is
  \<open>None\<close>. The field \<open>type\<close> of pika is named \<open>msg_type\<close> here.
\<close>

record BasicProperties =
  content_type :: "string option"
  content_encoding :: "string option"
  headers :: "carrier option"
  delivery_mode :: "nat option"
  priority :: "nat option"
  correlation_id :: "string option"
  reply_to :: "string option"
  expiration :: "string option"
  message_id :: "string option"
  timestamp :: "nat option"
  msg_type :: "string option"
  user_id :: "string option"
  app_id :: "string option"
  cluster_id :: "string option"

text \<open>\<open>pika.BasicProperties()\<close>: no field set.\<close>

definition new_BasicProperties :: BasicProperties where
  "new_BasicProperties =
     \<lparr>content_type = None, content_encoding = None, headers = None, delivery_mode = None,
      priority = None, correlation_id = None, reply_to = None, expiration = None,
      message_id = None, timestamp = None, msg_type = None, user_id = None, app_id = None,
      cluster_id = None\<rparr>"

text \<open>Python's truth value of an optional string: \<open>None\<close> and the empty string are false.\<close>

definition truthy :: "string option \<Rightarrow> bool" where
  "truthy x = (case x of None \<Rightarrow> False | Some s \<Rightarrow> s \<noteq> [])"

text \<open>\<open>properties.headers or {}\<close>: the headers, or an empty dict when there are none.\<close>

definition headers_or_empty :: "BasicProperties \<Rightarrow> carrier" where
  "headers_or_empty p = (case headers p of None \<Rightarrow> Map.empty | Some h \<Rightarrow> h)"

subsection \<open>The publish path: \<open>instrumented_publish\<close>\<close>

text \<open>
  The statements under \<open># Record metrics\<close>: the registry lookup, the published counter
  and the message size. The result is the exception of the first statement that raised, if
  any, and the state reached.
\<close>

definition record_published ::
  "string \<Rightarrow> bytes \<Rightarrow> RabbitMQInstrumentation \<Rightarrow> exn option \<times> RabbitMQInstrumentation" where
  "record_published routing_key body w =
     (case get_queue_metrics routing_key w of
        (Inl e, w1) \<Rightarrow> (Some e, w1)
      | (Inr metrics, w1) \<Rightarrow>
          then_do (counter_add published_counter published_counter_update metrics 1 w1)
            (histogram_record message_size message_size_update metrics (length body)))"

text \<open>
  The wrapper that \<open>instrument_publisher\<close> installs. \<open>original_basic_publish\<close> is the
  delegate, a function of the five arguments it is called with that returns a result or
  raises. The result is the outcome the caller sees, the properties object as the wrapper
  leaves it (the caller's own object when one was passed, mutated in place), and the state.
\<close>

definition instrumented_publish ::
  "(string \<Rightarrow> string \<Rightarrow> bytes \<Rightarrow> BasicProperties \<Rightarrow> bool \<Rightarrow> exn + 'r)
     \<Rightarrow> string \<Rightarrow> string \<Rightarrow> bytes \<Rightarrow> BasicProperties option \<Rightarrow> bool
     \<Rightarrow> RabbitMQInstrumentation \<Rightarrow> (exn + 'r) \<times> BasicProperties \<times> RabbitMQInstrumentation" where
  "instrumented_publish original_basic_publish exchange routing_key body properties mandatory w =
     (let p0 = (case properties of None \<Rightarrow> new_BasicProperties | Some p \<Rightarrow> p);
          p1 = (if headers p0 = None then p0\<lparr>headers := Some Map.empty\<rparr> else p0);
          previous = current w;
          (span, w1) = start_as_current_span (''publish '' @ routing_key) PRODUCER
                         [(''messaging.system'', Some ''rabbitmq''),
                          (''messaging.destination'', Some routing_key),
                          (''messaging.destination_kind'', Some ''queue''),
                          (''messaging.protocol'', Some ''AMQP''),
                          (''messaging.message_id'', message_id p1)] w;
          p2 = p1\<lparr>headers := Some (propagate_inject (current w1) (headers_or_empty p1))\<rparr>;
          p3 = (if \<not> truthy (correlation_id p2)
                then p2\<lparr>correlation_id :=
                          Some (format_0x 16 (unat (span_id (span_ctx (spans w1 ! span)))))\<rparr>
                else p2);
          (outcome, w2) =
            (case original_basic_publish exchange routing_key body p3 mandatory of
               Inl e \<Rightarrow> (Inl e, record_exception span e (set_status span ERROR w1))
             | Inr result \<Rightarrow>
                 (case record_published routing_key body w1 of
                    (Some e, w') \<Rightarrow> (Inl e, record_exception span e (set_status span ERROR w'))
                  | (None, w') \<Rightarrow> (Inr result, w')))
      in (outcome, p3, exit_current_span span previous w2))"

subsection \<open>The consume path: \<open>instrumented_callback\<close>\<close>

text \<open>
  The statements under \<open># Record metrics before processing\<close>, with the retry counter
  for a delivery whose headers hold the key \<open>x-first-death-exchange\<close>.
\<close>

definition record_consumed ::
  "string \<Rightarrow> bytes \<Rightarrow> carrier \<Rightarrow> RabbitMQInstrumentation
     \<Rightarrow> exn option \<times> RabbitMQInstrumentation" where
  "record_consumed queue body hdrs w =
     (case get_queue_metrics queue w of
        (Inl e, w1) \<Rightarrow> (Some e, w1)
      | (Inr metrics, w1) \<Rightarrow>
          then_do
            (then_do (counter_add consumed_counter consumed_counter_update metrics 1 w1)
               (histogram_record message_size message_size_update metrics (length body)))
            (\<lambda>w3. if ''x-first-death-exchange'' \<in> dom hdrs
                   then counter_add retry_counter retry_counter_update metrics 1 w3
                   else (None, w3)))"

text \<open>
  The wrapper that \<open>instrument_consumer\<close> returns for \<open>callback\<close> and \<open>queue\<close>. The
  callback is a function of the channel, the delivery, the properties and the body that
  returns a result or raises.
\<close>

definition instrumented_callback ::
  "('c \<Rightarrow> 'd \<Rightarrow> BasicProperties \<Rightarrow> bytes \<Rightarrow> exn + 'r) \<Rightarrow> string
     \<Rightarrow> 'c \<Rightarrow> 'd \<Rightarrow> BasicProperties \<Rightarrow> bytes
     \<Rightarrow> RabbitMQInstrumentation \<Rightarrow> (exn + 'r) \<times> RabbitMQInstrumentation" where
  "instrumented_callback callback queue ch deliver properties body w =
     (let hdrs = headers_or_empty properties;
          ctx = propagate_extract hdrs;
          (span, w1) = start_span (''consume '' @ queue) ctx CONSUMER
                         [(''messaging.system'', Some ''rabbitmq''),
                          (''messaging.destination'', Some queue),
                          (''messaging.destination_kind'', Some ''queue''),
                          (''messaging.protocol'', Some ''AMQP''),
                          (''messaging.message_id'', message_id properties),
                          (''messaging.correlation_id'', correlation_id properties)] w;
          (outcome, w2) =
            (case record_consumed queue body hdrs w1 of
               (Some e, w') \<Rightarrow> (Inl e, record_exception span e (set_status span ERROR w'))
             | (None, w') \<Rightarrow>
                 (case start_span (''process '' @ queue) (current w') INTERNAL
                         [(''messaging.operation'', Some ''process'')] w' of
                    (inner, w'') \<Rightarrow>
                      (case callback ch deliver properties body of
                         Inl e \<Rightarrow>
                           (Inl e, record_exception span e
                                     (set_status span ERROR (end_span inner w'')))
                       | Inr result \<Rightarrow> (Inr result, end_span inner w''))))
      in (outcome, end_span span w2))"

text \<open>The totals a test reads for a queue: zero while the queue has no instruments yet.\<close>

definition counter_total ::
  "(QueueMetrics \<Rightarrow> counter) \<Rightarrow> string \<Rightarrow> RabbitMQInstrumentation \<Rightarrow> nat" where
  "counter_total field queue w =
     (case metrics_by_queue w queue of
        None \<Rightarrow> 0
      | Some a \<Rightarrow> c_total (field (objects w ! a)))"

definition size_observations :: "string \<Rightarrow> RabbitMQInstrumentation \<Rightarrow> nat list" where
  "size_observations queue w =
     (case metrics_by_queue w queue of
        None \<Rightarrow> []
      | Some a \<Rightarrow> h_observations (message_size (objects w ! a)))"

text \<open>
  Every entry of the registry refers to an allocated instance, as every Python reference
  does.
\<close>

definition registry_ok :: "RabbitMQInstrumentation \<Rightarrow> bool" where
  "registry_ok w = (\<forall>a \<in> ran (metrics_by_queue w). a < length (objects w))"

text \<open>No call into the metric library raises.\<close>

definition library_returns :: "RabbitMQInstrumentation \<Rightarrow> bool" where
  "library_returns w = (raises w = (\<lambda>c. None))"

section \<open>The retry and dead-letter policy\<close>

text \<open>
  The channel is what the policy acts on: the declarations made on it, in order.
\<close>

datatype amqp_arg = AInt int | AStr string

datatype channel_call =
  Exchange_declare string string
| Queue_declare string "(string \<times> amqp_arg) list"
| Queue_bind string string string

type_synonym channel = "channel_call list"

definition create_dlq_policy :: "channel \<Rightarrow> string \<Rightarrow> int \<Rightarrow> channel" where
  "create_dlq_policy channel queue max_retries =
     (let dlx_exchange = queue @ ''.dlx'';
          dlq = queue @ ''.dlq''
      in channel @
         [Exchange_declare dlx_exchange ''direct'',
          Queue_declare dlq
            [(''x-message-ttl'', AInt 30000),
             (''x-dead-letter-exchange'', AStr []),
             (''x-dead-letter-routing-key'', AStr queue)],
          Queue_bind dlq dlx_exchange queue,
          Queue_declare queue
            [(''x-dead-letter-exchange'', AStr dlx_exchange),
             (''x-dead-letter-routing-key'', AStr queue)]])"

subsection \<open>The broker's dead-letter and time-to-live steps\<close>

text \<open>
  Modelled from the spec: the broker collaborator of section 6, which is not in the
  repository. It keeps the exchanges, queues and bindings declared on the channel, routes
  a message that leaves a queue (rejected by the consumer, or expired) through the queue's
  dead-letter exchange with its dead-letter routing key, and lets a message of a queue
  with a time-to-live expire. The default exchange (the empty name) routes to the queue
  named by the routing key; a direct exchange routes to the queues bound with that key.
\<close>

fun queue_arguments :: "channel \<Rightarrow> string \<Rightarrow> (string \<times> amqp_arg) list option" where
  "queue_arguments [] q = None"
| "queue_arguments (Queue_declare n args # cs) q =
     (if n = q then Some args else queue_arguments cs q)"
| "queue_arguments (Exchange_declare n t # cs) q = queue_arguments cs q"
| "queue_arguments (Queue_bind n e k # cs) q = queue_arguments cs q"

fun exchange_type :: "channel \<Rightarrow> string \<Rightarrow> string option" where
  "exchange_type [] x = None"
| "exchange_type (Exchange_declare n t # cs) x =
     (if n = x then Some t else exchange_type cs x)"
| "exchange_type (Queue_declare n args # cs) x = exchange_type cs x"
| "exchange_type (Queue_bind n e k # cs) x = exchange_type cs x"

fun bound_queues :: "channel \<Rightarrow> string \<Rightarrow> string \<Rightarrow> string list" where
  "bound_queues [] x rk = []"
| "bound_queues (Queue_bind n e k # cs) x rk =
     (if e = x \<and> k = rk then n # bound_queues cs x rk else bound_queues cs x rk)"
| "bound_queues (Exchange_declare n t # cs) x rk = bound_queues cs x rk"
| "bound_queues (Queue_declare n args # cs) x rk = bound_queues cs x rk"

definition route :: "channel \<Rightarrow> string \<Rightarrow> string \<Rightarrow> string list" where
  "route ch x rk =
     (if x = [] then (if queue_arguments ch rk = None then [] else [rk])
      else if exchange_type ch x = Some ''direct'' then bound_queues ch x rk
      else [])"

text \<open>
  Where a message that leaves queue \<open>q\<close> goes: the queues it is routed to, none when
  \<open>q\<close> has no dead-letter exchange (the message is dropped).
\<close>

definition dead_letter :: "channel \<Rightarrow> string \<Rightarrow> string list" where
  "dead_letter ch q =
     (case queue_arguments ch q of
        None \<Rightarrow> []
      | Some args \<Rightarrow>
          (case map_of args ''x-dead-letter-exchange'' of
             Some (AStr x) \<Rightarrow>
               (case map_of args ''x-dead-letter-routing-key'' of
                  Some (AStr rk) \<Rightarrow> route ch x rk
                | _ \<Rightarrow> route ch x q)
           | _ \<Rightarrow> []))"

definition has_ttl :: "channel \<Rightarrow> string \<Rightarrow> bool" where
  "has_ttl ch q =
     (case queue_arguments ch q of
        None \<Rightarrow> False
      | Some args \<Rightarrow> (case map_of args ''x-message-ttl'' of Some (AInt t) \<Rightarrow> True | _ \<Rightarrow> False))"

text \<open>
  A message is where its copies are: a list of queue names. The consumer of \<open>q\<close> fails
  every copy in \<open>q\<close>, which is rejected and dead-lettered; then every copy in a queue with
  a time-to-live expires and is dead-lettered. One retry round is the one after the other.
\<close>

definition consumer_fails :: "channel \<Rightarrow> string \<Rightarrow> string list \<Rightarrow> string list" where
  "consumer_fails ch q locs = concat (map (\<lambda>l. if l = q then dead_letter ch l else [l]) locs)"

definition ttl_expires :: "channel \<Rightarrow> string list \<Rightarrow> string list" where
  "ttl_expires ch locs = concat (map (\<lambda>l. if has_ttl ch l then dead_letter ch l else [l]) locs)"

fun retry_rounds :: "channel \<Rightarrow> string \<Rightarrow> nat \<Rightarrow> string list \<Rightarrow> string list" where
  "retry_rounds ch q 0 locs = locs"
| "retry_rounds ch q (Suc n) locs = retry_rounds ch q n (ttl_expires ch (consumer_fails ch q locs))"

section \<open>\<open>HomelabTelemetry\<close> and \<open>TracingHelper\<close>: context propagation\<close>

text \<open>
  \<open>HomelabTelemetry.inject_context\<close>: both propagators write the current context
  \<open>cur\<close> into the carrier.
\<close>

definition inject_context :: "otel_context \<Rightarrow> carrier \<Rightarrow> carrier" where
  "inject_context cur carrier = baggage_inject cur (tracecontext_inject cur carrier)"

text \<open>
  \<open>opentelemetry.baggage.set_baggage(name, value, context=None)\<close>, called with a list
  of positional arguments: \<open>name\<close> and \<open>value\<close> are required, so Python raises
  \<open>TypeError\<close> for a call with fewer than two or more than three arguments. With two
  arguments the entry is set in the current context \<open>cur\<close>, with three in the context
  given.
\<close>

datatype pyval = PStr string | PCtx otel_context

fun set_baggage :: "pyval list \<Rightarrow> otel_context \<Rightarrow> exn + otel_context" where
  "set_baggage [PStr name, PStr v] cur =
     Inr (cur\<lparr>ctx_baggage := AList.update name v (ctx_baggage cur)\<rparr>)"
| "set_baggage [PStr name, PStr v, PCtx c] cur =
     Inr (c\<lparr>ctx_baggage := AList.update name v (ctx_baggage c)\<rparr>)"
| "set_baggage args cur =
     Inl (Exn ''TypeError'' ''set_baggage() missing 1 required positional argument'')"

text \<open>
  \<open>HomelabTelemetry.extract_context\<close>: the trace propagator extracts \<open>context\<close>, then
  \<open>baggage.set_baggage\<close> is called with one positional argument, the context that the
  baggage propagator extracted; \<open>context\<close> is returned when that call returns.
\<close>

definition extract_context :: "otel_context \<Rightarrow> carrier \<Rightarrow> exn + otel_context" where
  "extract_context cur carrier =
     (let context = tracecontext_extract carrier
      in case set_baggage [PCtx (baggage_extract carrier)] cur of
           Inl e \<Rightarrow> Inl e
         | Inr b \<Rightarrow> Inr context)"

text \<open>\<open>TracingHelper.extract_context_from_rabbitmq\<close>; no statement of it raises.\<close>

definition extract_context_from_rabbitmq :: "BasicProperties \<Rightarrow> otel_context" where
  "extract_context_from_rabbitmq properties = propagate_extract (headers_or_empty properties)"

section \<open>Properties of the retry and dead-letter policy\<close>

lemma dead_letter_primary:
  "dead_letter (create_dlq_policy [] q m) q = [q @ ''.dlq'']"
  by (simp add: create_dlq_policy_def Let_def dead_letter_def route_def)

lemma dead_letter_delay:
  "dead_letter (create_dlq_policy [] q m) (q @ ''.dlq'') = [q]"
  by (simp add: create_dlq_policy_def Let_def dead_letter_def route_def)

lemma has_ttl_delay: "has_ttl (create_dlq_policy [] q m) (q @ ''.dlq'')"
  by (simp add: create_dlq_policy_def Let_def has_ttl_def)

lemma no_ttl_primary: "\<not> has_ttl (create_dlq_policy [] q m) q"
  by (simp add: create_dlq_policy_def Let_def has_ttl_def)

lemma retry_round:
  "ttl_expires (create_dlq_policy [] q m) (consumer_fails (create_dlq_policy [] q m) q [q]) = [q]"
  by (simp add: consumer_fails_def ttl_expires_def dead_letter_primary dead_letter_delay
      has_ttl_delay)

lemma retry_rounds_back: "retry_rounds (create_dlq_policy [] q m) q n [q] = [q]"
  by (induction n) (simp_all add: retry_round)

text \<open>
  Claim C8. For every queue name and every \<open>max_retries\<close>, \<open>create_dlq_policy\<close> makes
  four declarations on the channel, after those already made: the direct exchange
  \<open>q.dlx\<close>; the queue \<open>q.dlq\<close> with a message time-to-live and the dead-letter routing
  key \<open>q\<close>; the binding of \<open>q.dlq\<close> to \<open>q.dlx\<close>; the main queue \<open>q\<close> with the
  dead-letter exchange \<open>q.dlx\<close>. On a fresh channel the broker then lets the messages of
  \<open>q.dlq\<close> expire, routes an expired message of \<open>q.dlq\<close> back to \<open>q\<close>, and routes a
  message rejected from \<open>q\<close> to \<open>q.dlq\<close>.
\<close>

theorem create_dlq_policy_declares:
  "create_dlq_policy ch q max_retries =
     ch @ [Exchange_declare (q @ ''.dlx'') ''direct'',
           Queue_declare (q @ ''.dlq'')
             [(''x-message-ttl'', AInt 30000),
              (''x-dead-letter-exchange'', AStr []),
              (''x-dead-letter-routing-key'', AStr q)],
           Queue_bind (q @ ''.dlq'') (q @ ''.dlx'') q,
           Queue_declare q
             [(''x-dead-letter-exchange'', AStr (q @ ''.dlx'')),
              (''x-dead-letter-routing-key'', AStr q)]]
   \<and> has_ttl (create_dlq_policy [] q max_retries) (q @ ''.dlq'')
   \<and> dead_letter (create_dlq_policy [] q max_retries) (q @ ''.dlq'') = [q]
   \<and> dead_letter (create_dlq_policy [] q max_retries) q = [q @ ''.dlq'']"
  by (simp add: dead_letter_primary dead_letter_delay has_ttl_delay)
    (simp add: create_dlq_policy_def Let_def)

text \<open>
  Claim C9. The claim bounds the retries by \<open>max_retries\<close> and ends them in a terminal
  dead-letter queue. The code does neither: the declarations do not depend on
  \<open>max_retries\<close>, and under the topology declared on a fresh channel a message that
  fails every time is back in the primary queue after any number \<open>n\<close> of retry rounds
  (rejected from \<open>q\<close>, expired in \<open>q.dlq\<close>), also for \<open>n\<close> beyond \<open>max_retries\<close>.
\<close>

theorem dlq_retries_unbounded:
  "create_dlq_policy ch q max_retries = create_dlq_policy ch q 0
   \<and> retry_rounds (create_dlq_policy [] q max_retries) q n [q] = [q]"
  by (simp add: retry_rounds_back) (simp add: create_dlq_policy_def)

section \<open>Properties of context extraction\<close>

lemma extract_context_raises:
  "extract_context cur carrier =
     Inl (Exn ''TypeError'' ''set_baggage() missing 1 required positional argument'')"
  by (simp add: extract_context_def)

lemma propagate_extract_absent:
  "c ''traceparent'' = None \<Longrightarrow> c ''baggage'' = None \<Longrightarrow> propagate_extract c = empty_context"
  by (simp add: propagate_extract_def tracecontext_extract_def baggage_extract_def
      empty_context_def)

lemma extract_context_from_rabbitmq_no_headers:
  "headers p = None \<Longrightarrow> extract_context_from_rabbitmq p = empty_context"
  by (simp add: extract_context_from_rabbitmq_def headers_or_empty_def propagate_extract_absent)

lemma empty_context_unsampled:
  "\<not> ctx_sampled empty_context \<and> ctx_baggage empty_context = []"
  by (simp add: ctx_sampled_def empty_context_def)

text \<open>
  Claim C6. The claim says that injecting a context \<open>C\<close> and a baggage \<open>B\<close> into an
  empty carrier and extracting with \<open>extract_context\<close> gives back the trace id and the
  baggage. In the code \<open>extract_context\<close> calls \<open>set_baggage\<close> with one argument, so for
  every \<open>C\<close>, every \<open>B\<close> and every current context it raises \<open>TypeError\<close> and returns
  nothing.
\<close>

theorem extract_after_inject_raises:
  "extract_context cur (inject_context \<lparr>ctx_span = Some C, ctx_baggage = B\<rparr> Map.empty) =
     Inl (Exn ''TypeError'' ''set_baggage() missing 1 required positional argument'')"
  by (rule extract_context_raises)

text \<open>
  Claim C7. The claim says that extraction from an empty carrier raises nothing at every
  entry point. \<open>HomelabTelemetry.extract_context\<close> raises \<open>TypeError\<close> on the empty
  carrier, while \<open>extract_context_from_rabbitmq\<close> on properties without headers yields
  the unparented, unsampled context with empty baggage.
\<close>

theorem extract_context_empty_carrier_raises:
  "extract_context cur Map.empty =
     Inl (Exn ''TypeError'' ''set_baggage() missing 1 required positional argument'')
   \<and> extract_context_from_rabbitmq new_BasicProperties = empty_context
   \<and> \<not> ctx_sampled empty_context \<and> ctx_baggage empty_context = []"
  by (simp add: extract_context_raises extract_context_from_rabbitmq_no_headers
      new_BasicProperties_def empty_context_unsampled)

end
